theory Spec2Isabelle
  imports Complex_Main
begin

section \<open>Numbers of the host language\<close>

text \<open>
  \<open>formatTimeAgo\<close> computes with the host's numbers: the time value of a date (an integer
  count of milliseconds, or NaN for an invalid date), the reference instant \<open>now\<close> (a date
  or any number), and the \<open>max\<close> and \<open>value\<close> fields of the unit table (any number,
  \<open>Infinity\<close> in the default table). A number is modelled as NaN, one of the two
  infinities, or a finite value. Finite values are exact rationals: the rounding error of
  the floating-point subtraction and division and the sign of zero are not represented.
\<close>

datatype number = NaN | PInf | NInf | Fin rat

fun num_sub :: "number \<Rightarrow> number \<Rightarrow> number" where
  "num_sub NaN _ = NaN"
| "num_sub _ NaN = NaN"
| "num_sub (Fin a) (Fin b) = Fin (a - b)"
| "num_sub (Fin a) PInf = NInf"
| "num_sub (Fin a) NInf = PInf"
| "num_sub PInf PInf = NaN"
| "num_sub PInf _ = PInf"
| "num_sub NInf NInf = NaN"
| "num_sub NInf _ = NInf"

fun num_div :: "number \<Rightarrow> number \<Rightarrow> number" where
  "num_div NaN _ = NaN"
| "num_div _ NaN = NaN"
| "num_div (Fin a) (Fin b) =
     (if b = 0 then (if a = 0 then NaN else if 0 < a then PInf else NInf)
      else Fin (a / b))"
| "num_div (Fin a) _ = Fin 0"
| "num_div PInf (Fin b) = (if 0 \<le> b then PInf else NInf)"
| "num_div NInf (Fin b) = (if 0 \<le> b then NInf else PInf)"
| "num_div _ _ = NaN"

fun num_neg :: "number \<Rightarrow> number" where
  "num_neg NaN = NaN"
| "num_neg PInf = NInf"
| "num_neg NInf = PInf"
| "num_neg (Fin a) = Fin (- a)"

text \<open>The comparisons \<open><\<close>, \<open>>\<close> and \<open><=\<close>: each is false as soon as one side is NaN.\<close>

fun num_lt :: "number \<Rightarrow> number \<Rightarrow> bool" where
  "num_lt NaN _ = False"
| "num_lt _ NaN = False"
| "num_lt (Fin a) (Fin b) = (a < b)"
| "num_lt (Fin a) PInf = True"
| "num_lt (Fin a) NInf = False"
| "num_lt PInf _ = False"
| "num_lt NInf NInf = False"
| "num_lt NInf _ = True"

definition num_gt :: "number \<Rightarrow> number \<Rightarrow> bool" where
  "num_gt a b = num_lt b a"

definition num_le :: "number \<Rightarrow> number \<Rightarrow> bool" where
  "num_le a b = (a \<noteq> NaN \<and> b \<noteq> NaN \<and> (num_lt a b \<or> a = b))"

text \<open>A number in a condition (\<open>unitMax && ...\<close>) counts as false when it is 0 or NaN.\<close>

definition truthy :: "number \<Rightarrow> bool" where
  "truthy n = (n \<noteq> NaN \<and> n \<noteq> Fin 0)"

fun Math_abs :: "number \<Rightarrow> number" where
  "Math_abs NaN = NaN"
| "Math_abs PInf = PInf"
| "Math_abs NInf = PInf"
| "Math_abs (Fin a) = Fin \<bar>a\<bar>"

text \<open>\<open>Math.round\<close> rounds to the nearest integer, a tie towards \<open>+Infinity\<close>.\<close>

fun Math_round :: "number \<Rightarrow> number" where
  "Math_round (Fin a) = Fin (of_int \<lfloor>a + 1 / 2\<rfloor>)"
| "Math_round n = n"

fun Math_ceil :: "number \<Rightarrow> number" where
  "Math_ceil (Fin a) = Fin (of_int \<lceil>a\<rceil>)"
| "Math_ceil n = n"

fun Math_floor :: "number \<Rightarrow> number" where
  "Math_floor (Fin a) = Fin (of_int \<lfloor>a\<rfloor>)"
| "Math_floor n = n"

datatype error = RangeError

text \<open>
  \<open>+n.toFixed(fractionDigits)\<close>. The digit count is first truncated to an integer (NaN
  counts as 0); a count that is infinite, below 0 or above 100 raises \<open>RangeError\<close>, and
  it does so before \<open>n\<close> is looked at. A NaN or infinite \<open>n\<close> is printed by name and read
  back unchanged by the unary plus. A finite \<open>n\<close> is rounded to that many decimals, a tie
  away from zero. (From \<open>10^21\<close> on the host prints \<open>n\<close> in exponent notation and reads the
  same number back; every floating-point number of that size is an integer, which
  rounding to decimals leaves as it is.)
\<close>

fun ToIntegerOrInfinity :: "number \<Rightarrow> number" where
  "ToIntegerOrInfinity NaN = Fin 0"
| "ToIntegerOrInfinity (Fin a) = Fin (of_int (if 0 \<le> a then \<lfloor>a\<rfloor> else \<lceil>a\<rceil>))"
| "ToIntegerOrInfinity n = n"

definition round_decimals :: "nat \<Rightarrow> rat \<Rightarrow> rat" where
  "round_decimals f x = sgn x * of_int \<lfloor>\<bar>x\<bar> * 10 ^ f + 1 / 2\<rfloor> / 10 ^ f"

definition toFixed_value :: "number \<Rightarrow> number \<Rightarrow> error + number" where
  "toFixed_value n fractionDigits =
     (case ToIntegerOrInfinity fractionDigits of
        Fin f \<Rightarrow>
          if f < 0 \<or> 100 < f then Inl RangeError
          else (case n of
                  Fin x \<Rightarrow> Inr (Fin (round_decimals (nat \<lfloor>f\<rfloor>) x))
                | _ \<Rightarrow> Inr n)
      | _ \<Rightarrow> Inl RangeError)"

section \<open>The unit table and the options\<close>

record UseTimeAgoUnit =
  unit_max :: number
  unit_value :: number
  unit_name :: string

definition DEFAULT_UNITS :: "UseTimeAgoUnit list" where
  "DEFAULT_UNITS =
     [\<lparr>unit_max = Fin 60000, unit_value = Fin 1000, unit_name = ''second''\<rparr>,
      \<lparr>unit_max = Fin 2760000, unit_value = Fin 60000, unit_name = ''minute''\<rparr>,
      \<lparr>unit_max = Fin 72000000, unit_value = Fin 3600000, unit_name = ''hour''\<rparr>,
      \<lparr>unit_max = Fin 518400000, unit_value = Fin 86400000, unit_name = ''day''\<rparr>,
      \<lparr>unit_max = Fin 2419200000, unit_value = Fin 604800000, unit_name = ''week''\<rparr>,
      \<lparr>unit_max = Fin 28512000000, unit_value = Fin 2592000000, unit_name = ''month''\<rparr>,
      \<lparr>unit_max = PInf, unit_value = Fin 31536000000, unit_name = ''year''\<rparr>]"

text \<open>\<open>max?: UnitNames | number\<close> and \<open>rounding?: 'round' | 'ceil' | 'floor' | number\<close>.\<close>

datatype max_option = Max_number number | Max_unit string

datatype rounding = Round | Ceil | Floor | Digits number

text \<open>
  The two formatters the function hands its result to are capabilities of the host and of
  the caller: \<open>Intl.RelativeTimeFormat\<close>, built from a locale tag and an options object,
  and the full-date formatter. Neither is evaluated here: what they do with the arguments
  they are given, an exception of their own included, is theirs. The option values a caller
  passes for them are kept as they are (types \<open>'r\<close> and \<open>'f\<close>), next to the defaults the
  function fills in: the options object \<open>{ numeric: 'auto' }\<close> and \<open>DEFAULT_FORMATTER\<close>.
\<close>

datatype 'r relativeTimeOptions = Numeric_auto | Given_options 'r

datatype 'f fullDateFormatter = DEFAULT_FORMATTER | Given_formatter 'f

text \<open>Every option can be left out: \<open>None\<close> is the absent (undefined) property.\<close>

record ('f, 'r) FormatTimeAgoOptions =
  o_max :: "max_option option"
  o_fullDateFormatter :: "'f option"
  o_locale :: "string option"
  o_relativeTimeOptions :: "'r option"
  o_showSecond :: "bool option"
  o_rounding :: "rounding option"
  o_units :: "UseTimeAgoUnit list option"

text \<open>
  What \<open>formatTimeAgo\<close> returns: the string of \<open>rtf.format(value, unit)\<close> for the
  formatter built from a locale and options, the string of
  \<open>fullDateFormatter(new Date(from))\<close>, or the empty string.
\<close>

datatype ('f, 'r) outcome =
    Rtf_format string "'r relativeTimeOptions" number string
  | Full_date "'f fullDateFormatter" number
  | Empty_string

section \<open>formatTimeAgo\<close>

text \<open>The destructuring of the options with its defaults.\<close>

definition max_of :: "('f, 'r) FormatTimeAgoOptions \<Rightarrow> max_option option" where
  "max_of options = o_max options"

definition fullDateFormatter_of :: "('f, 'r) FormatTimeAgoOptions \<Rightarrow> 'f fullDateFormatter" where
  "fullDateFormatter_of options =
     (case o_fullDateFormatter options of None \<Rightarrow> DEFAULT_FORMATTER | Some f \<Rightarrow> Given_formatter f)"

definition units_of :: "('f, 'r) FormatTimeAgoOptions \<Rightarrow> UseTimeAgoUnit list" where
  "units_of options = (case o_units options of None \<Rightarrow> DEFAULT_UNITS | Some us \<Rightarrow> us)"

definition showSecond_of :: "('f, 'r) FormatTimeAgoOptions \<Rightarrow> bool" where
  "showSecond_of options = (case o_showSecond options of None \<Rightarrow> False | Some b \<Rightarrow> b)"

definition rounding_of :: "('f, 'r) FormatTimeAgoOptions \<Rightarrow> rounding" where
  "rounding_of options = (case o_rounding options of None \<Rightarrow> Round | Some r \<Rightarrow> r)"

definition locale_of :: "('f, 'r) FormatTimeAgoOptions \<Rightarrow> string" where
  "locale_of options = (case o_locale options of None \<Rightarrow> ''ar'' | Some l \<Rightarrow> l)"

definition relativeTimeOptions_of ::
  "('f, 'r) FormatTimeAgoOptions \<Rightarrow> 'r relativeTimeOptions" where
  "relativeTimeOptions_of options =
     (case o_relativeTimeOptions options of None \<Rightarrow> Numeric_auto | Some r \<Rightarrow> Given_options r)"

text \<open>\<open>rtf = new Intl.RelativeTimeFormat(locale, relativeTimeOptions)\<close>.\<close>

type_synonym 'r rtf = "string \<times> 'r relativeTimeOptions"

definition rtf_of :: "('f, 'r) FormatTimeAgoOptions \<Rightarrow> 'r rtf" where
  "rtf_of options = (locale_of options, relativeTimeOptions_of options)"

definition roundFn :: "rounding \<Rightarrow> number \<Rightarrow> error + number" where
  "roundFn rounding n =
     (case rounding of
        Digits d \<Rightarrow> toFixed_value n d
      | Round \<Rightarrow> Inr (Math_round n)
      | Ceil \<Rightarrow> Inr (Math_ceil n)
      | Floor \<Rightarrow> Inr (Math_floor n))"

definition getValue :: "rounding \<Rightarrow> number \<Rightarrow> UseTimeAgoUnit \<Rightarrow> error + number" where
  "getValue rounding diff unit = roundFn rounding (num_div (Math_abs diff) (unit_value unit))"

definition format ::
  "'r rtf \<Rightarrow> rounding \<Rightarrow> number \<Rightarrow> UseTimeAgoUnit \<Rightarrow> error + ('f, 'r) outcome" where
  "format rtf rounding diff unit =
     (case getValue rounding diff unit of
        Inl e \<Rightarrow> Inl e
      | Inr val \<Rightarrow>
          (let past = num_gt diff (Fin 0)
           in Inr (Rtf_format (fst rtf) (snd rtf)
                     (if past then num_neg val else val) (unit_name unit))))"

text \<open>
  The loop over \<open>units.entries()\<close>, from index \<open>idx\<close> on. \<open>units[idx - 1]\<close> is undefined
  at index 0 and a unit, which counts as true, at every later index.
\<close>

function scan ::
  "'r rtf \<Rightarrow> rounding \<Rightarrow> number \<Rightarrow> UseTimeAgoUnit list \<Rightarrow> nat \<Rightarrow> error + ('f, 'r) outcome" where
  "scan rtf rounding diff units idx =
     (if idx < length units then
        (case getValue rounding diff (units ! idx) of
           Inl e \<Rightarrow> Inl e
         | Inr val \<Rightarrow>
             if num_le val (Fin 0) \<and> 0 < idx then format rtf rounding diff (units ! (idx - 1))
             else if num_lt (Math_abs diff) (unit_max (units ! idx))
               then format rtf rounding diff (units ! idx)
             else scan rtf rounding diff units (idx + 1))
      else Inr Empty_string)"
  by pat_completeness auto
termination
  by (relation "measure (\<lambda>(rtf, rounding, diff, units, idx). length units - idx)") auto

text \<open>The three tests ahead of the loop.\<close>

definition less_than_a_minute :: "number \<Rightarrow> bool \<Rightarrow> bool" where
  "less_than_a_minute absDiff showSecond = (num_lt absDiff (Fin 60000) \<and> \<not> showSecond)"

definition max_number_exceeded :: "max_option option \<Rightarrow> number \<Rightarrow> bool" where
  "max_number_exceeded mx absDiff =
     (case mx of Some (Max_number m) \<Rightarrow> num_gt absDiff m | _ \<Rightarrow> False)"

text \<open>\<open>units.find(i => i.name === max)\<close>: the first unit of that name, if there is one.\<close>

definition find_unit :: "string \<Rightarrow> UseTimeAgoUnit list \<Rightarrow> UseTimeAgoUnit option" where
  "find_unit s units = find (\<lambda>i. unit_name i = s) units"

definition max_unit_exceeded :: "max_option option \<Rightarrow> UseTimeAgoUnit list \<Rightarrow> number \<Rightarrow> bool" where
  "max_unit_exceeded mx units absDiff =
     (case mx of
        Some (Max_unit s) \<Rightarrow>
          (case find_unit s units of
             None \<Rightarrow> False
           | Some u \<Rightarrow> truthy (unit_max u) \<and> num_gt absDiff (unit_max u))
      | _ \<Rightarrow> False)"

text \<open>
  \<open>from\<close> is the time value of the date passed in (\<open>+from\<close>), \<open>now\<close> the number \<open>+now\<close>.
\<close>

definition formatTimeAgo ::
  "number \<Rightarrow> ('f, 'r) FormatTimeAgoOptions \<Rightarrow> number \<Rightarrow> error + ('f, 'r) outcome" where
  "formatTimeAgo from options now =
     (let mx = max_of options;
          fullDateFormatter = fullDateFormatter_of options;
          units = units_of options;
          showSecond = showSecond_of options;
          rounding = rounding_of options;
          rtf = rtf_of options;
          diff = num_sub now from;
          absDiff = Math_abs diff
      in if less_than_a_minute absDiff showSecond
           then Inr (Rtf_format (fst rtf) (snd rtf) (Fin 0) ''second'')
         else if max_number_exceeded mx absDiff then Inr (Full_date fullDateFormatter from)
         else if max_unit_exceeded mx units absDiff then Inr (Full_date fullDateFormatter from)
         else scan rtf rounding diff units 0)"

section \<open>Notions used to state the properties\<close>


text \<open>
  The loop goes past index \<open>j\<close>: the magnitude is computed, and neither of the two
  \<open>return\<close> statements of the loop body is taken there.
\<close>

definition passes_over :: "rounding \<Rightarrow> number \<Rightarrow> UseTimeAgoUnit list \<Rightarrow> nat \<Rightarrow> bool" where
  "passes_over rounding diff units j =
     (case getValue rounding diff (units ! j) of
        Inl e \<Rightarrow> False
      | Inr val \<Rightarrow>
          \<not> (num_le val (Fin 0) \<and> 0 < j) \<and> \<not> num_lt (Math_abs diff) (unit_max (units ! j)))"

text \<open>The call without options, \<open>formatTimeAgo(from, {}, now)\<close>.\<close>

definition no_options :: "(unit, unit) FormatTimeAgoOptions" where
  "no_options =
     \<lparr>o_max = None, o_fullDateFormatter = None, o_locale = None,
      o_relativeTimeOptions = None, o_showSecond = None, o_rounding = None, o_units = None\<rparr>"

text \<open>A table whose first unit has \<open>max: 0\<close>.\<close>

definition zero_max_units :: "UseTimeAgoUnit list" where
  "zero_max_units =
     [\<lparr>unit_max = Fin 0, unit_value = Fin 1000, unit_name = ''second''\<rparr>,
      \<lparr>unit_max = PInf, unit_value = Fin 60000, unit_name = ''minute''\<rparr>]"

definition zero_max_options :: "(unit, unit) FormatTimeAgoOptions" where
  "zero_max_options = no_options\<lparr>o_max := Some (Max_unit ''second''), o_units := Some zero_max_units\<rparr>"

text \<open>The calls with \<open>{ rounding: 'floor' }\<close> and with \<open>{ rounding: 101 }\<close>.\<close>

definition floor_options :: "(unit, unit) FormatTimeAgoOptions" where
  "floor_options = no_options\<lparr>o_rounding := Some Floor\<rparr>"


section \<open>Basic facts\<close>

declare scan.simps [simp del]

lemma num_lt_NaN_right [simp]: "num_lt x NaN = False"
  by (cases x) simp_all

lemma num_le_NaN [simp]: "num_le NaN x = False" "num_le x NaN = False"
  by (simp_all add: num_le_def)

lemma num_gt_NaN [simp]: "num_gt NaN x = False" "num_gt x NaN = False"
  by (simp_all add: num_gt_def)

lemma num_div_NaN_right [simp]: "num_div x NaN = NaN"
  by (cases x) simp_all



lemma roundFn_NaN: "roundFn r NaN = Inr v \<Longrightarrow> v = NaN"
  by (cases r) (auto simp: roundFn_def toFixed_value_def split: number.splits if_splits)




lemma format_not_empty: "format rtf r diff u \<noteq> Inr Empty_string"
  by (simp add: format_def split: sum.splits)




lemma num_sub_NaN_right [simp]: "num_sub x NaN = NaN"
  by (cases x) simp_all

lemma format_Rtf:
  assumes "format rtf r diff u = Inr (Rtf_format l ro v n)"
  shows "\<exists>val. getValue r diff u = Inr val \<and> l = fst rtf \<and> ro = snd rtf \<and> n = unit_name u
           \<and> v = (if num_gt diff (Fin 0) then num_neg val else val)"
  using assms by (auto simp: format_def Let_def split: sum.splits)

lemma getValue_abs_NaN:
  assumes "Math_abs diff = NaN" and "getValue r diff u = Inr val"
  shows "val = NaN"
  using assms by (auto simp: getValue_def dest: roundFn_NaN)

lemma scan_Rtf:
  assumes "scan rtf r diff units idx = (Inr (Rtf_format l ro v n) :: error + ('f, 'r) outcome)"
  shows "\<exists>u\<in>set units. \<exists>val. getValue r diff u = Inr val \<and> l = fst rtf \<and> ro = snd rtf
           \<and> n = unit_name u \<and> v = (if num_gt diff (Fin 0) then num_neg val else val)
           \<and> Math_abs diff \<noteq> NaN"
  using assms
proof (induction rtf r diff units idx rule: scan.induct)
  case (1 rtf rounding diff units idx)
  let ?out = "Inr (Rtf_format l ro v n) :: error + ('f, 'r) outcome"
  have lt: "idx < length units"
    using "1.prems" by (subst (asm) scan.simps) (simp split: if_splits)
  obtain val0 where v0: "getValue rounding diff (units ! idx) = Inr val0"
    using "1.prems" lt by (subst (asm) scan.simps) (simp split: sum.splits)
  consider (fallback) "num_le val0 (Fin 0)" "0 < idx"
    | (fit) "\<not> (num_le val0 (Fin 0) \<and> 0 < idx)" "num_lt (Math_abs diff) (unit_max (units ! idx))"
    | (onward) "\<not> (num_le val0 (Fin 0) \<and> 0 < idx)" "\<not> num_lt (Math_abs diff) (unit_max (units ! idx))"
    by blast
  then show ?case
  proof cases
    case fallback
    then have f: "format rtf rounding diff (units ! (idx - 1)) = ?out"
      using "1.prems" lt v0 by (subst (asm) scan.simps) simp
    have "val0 \<noteq> NaN" using fallback(1) by auto
    then have "Math_abs diff \<noteq> NaN" using getValue_abs_NaN [OF _ v0] by blast
    moreover have "units ! (idx - 1) \<in> set units" using lt by simp
    ultimately show ?thesis using format_Rtf [OF f] by blast
  next
    case fit
    then have f: "format rtf rounding diff (units ! idx) = ?out"
      using "1.prems" lt v0 by (subst (asm) scan.simps) auto
    have "Math_abs diff \<noteq> NaN" using fit(2) by auto
    moreover have "units ! idx \<in> set units" using lt by simp
    ultimately show ?thesis using format_Rtf [OF f] by blast
  next
    case onward
    then have "scan rtf rounding diff units (idx + 1) = ?out"
      using "1.prems" lt v0 by (subst (asm) scan.simps) auto
    then show ?thesis using "1.IH" [OF lt v0] onward by blast
  qed
qed

lemma formatTimeAgo_Rtf:
  assumes "formatTimeAgo from options now = Inr (Rtf_format l ro v n)"
  shows "l = locale_of options \<and> ro = relativeTimeOptions_of options
         \<and> (if less_than_a_minute (Math_abs (num_sub now from)) (showSecond_of options)
              then v = Fin 0 \<and> n = ''second''
              else \<exists>u\<in>set (units_of options). \<exists>val.
                     getValue (rounding_of options) (num_sub now from) u = Inr val
                     \<and> n = unit_name u
                     \<and> v = (if num_gt (num_sub now from) (Fin 0) then num_neg val else val)
                     \<and> Math_abs (num_sub now from) \<noteq> NaN)"
  using assms unfolding formatTimeAgo_def Let_def
  by (auto simp: rtf_of_def split: if_splits dest!: scan_Rtf)

lemma find_unit_None: "find_unit s units = None \<longleftrightarrow> (\<forall>u\<in>set units. unit_name u \<noteq> s)"
  by (auto simp: find_unit_def find_None_iff)

lemma scan_outcome:
  assumes "scan rtf r diff units idx = Inr out"
  shows "out = Empty_string \<or> (\<exists>l ro v n. out = Rtf_format l ro v n)"
  using assms
proof (induction rtf r diff units idx rule: scan.induct)
  case (1 rtf rounding diff units idx)
  show ?case
  proof (cases "idx < length units")
    case False
    then show ?thesis using "1.prems" by (subst (asm) scan.simps) simp
  next
    case True
    note eq = scan.simps [of rtf rounding diff units idx]
    show ?thesis
      using "1.prems" "1.IH" True unfolding eq
      by (auto simp: format_def Let_def split: sum.splits if_splits)
  qed
qed

lemma scan_not_Full_date: "scan rtf r diff units idx \<noteq> Inr (Full_date f d)"
  using scan_outcome [of rtf r diff units idx "Full_date f d"] by auto

lemma scan_pass:
  assumes "j < length units" and "passes_over r diff units j"
  shows "scan rtf r diff units j = scan rtf r diff units (j + 1)"
  using assms by (subst scan.simps) (auto simp: passes_over_def split: sum.splits)

lemma scan_skip:
  assumes "idx \<le> k" and "k \<le> length units"
    and "\<forall>j. idx \<le> j \<and> j < k \<longrightarrow> passes_over r diff units j"
  shows "(scan rtf r diff units idx :: error + ('f, 'r) outcome) = scan rtf r diff units k"
  using assms
proof (induction k)
  case 0
  then show ?case by simp
next
  case (Suc k)
  show ?case
  proof (cases "idx = Suc k")
    case True
    then show ?thesis by simp
  next
    case False
    then have le: "idx \<le> k" using Suc.prems(1) by simp
    have "(scan rtf r diff units idx :: error + ('f, 'r) outcome) = scan rtf r diff units k"
      using Suc.IH [OF le] Suc.prems by simp
    also have "\<dots> = scan rtf r diff units (k + 1)"
      using scan_pass [of k units r diff rtf] Suc.prems le by simp
    finally show ?thesis by simp
  qed
qed

lemma scan_fallback:
  assumes "idx < length units" and "0 < idx"
    and "getValue r diff (units ! idx) = Inr val" and "num_le val (Fin 0)"
  shows "scan rtf r diff units idx = format rtf r diff (units ! (idx - 1))"
  using assms by (subst scan.simps) simp

lemma scan_fit:
  assumes "idx < length units"
    and "getValue r diff (units ! idx) = Inr val" and "\<not> (num_le val (Fin 0) \<and> 0 < idx)"
    and "num_lt (Math_abs diff) (unit_max (units ! idx))"
  shows "scan rtf r diff units idx = format rtf r diff (units ! idx)"
  using assms by (subst scan.simps) auto

lemma formatTimeAgo_scan:
  assumes "\<not> less_than_a_minute (Math_abs (num_sub now from)) (showSecond_of options)"
    and "\<not> max_number_exceeded (max_of options) (Math_abs (num_sub now from))"
    and "\<not> max_unit_exceeded (max_of options) (units_of options) (Math_abs (num_sub now from))"
  shows "formatTimeAgo from options now =
           scan (rtf_of options) (rounding_of options) (num_sub now from) (units_of options) 0"
  using assms by (simp add: formatTimeAgo_def Let_def)

lemma format_value:
  assumes "getValue r diff u = Inr val"
  shows "format rtf r diff u =
           Inr (Rtf_format (fst rtf) (snd rtf) (if num_gt diff (Fin 0) then num_neg val else val)
                  (unit_name u))"
  using assms by (simp add: format_def)



lemma scan_finds:
  assumes "k < length units" and "num_lt (Math_abs diff) (unit_max (units ! k))"
    and "idx \<le> k"
  shows "scan rtf r diff units idx \<noteq> Inr Empty_string"
  using assms
proof (induction rtf r diff units idx rule: scan.induct)
  case (1 rtf rounding diff units idx)
  have lt: "idx < length units" using "1.prems" by simp
  note eq = scan.simps [of rtf rounding diff units idx]
  show ?case
  proof (cases "idx = k")
    case True
    then show ?thesis
      using "1.prems" lt unfolding eq
      by (auto simp: format_not_empty split: sum.splits)
  next
    case False
    then have "idx + 1 \<le> k" using "1.prems" by simp
    then show ?thesis
      using "1.IH" "1.prems" lt unfolding eq
      by (auto simp: format_not_empty split: sum.splits)
  qed
qed





section \<open>The sub-minute return\<close>

text \<open>
  C2. Whenever \<open>|now - from| < 60000\<close> and \<open>showSecond\<close> is absent or false,
  \<open>formatTimeAgo\<close> returns \<open>rtf.format(0, 'second')\<close>, the zero-second phrase of the
  formatter built from the call's locale and options. Nothing is assumed about \<open>max\<close> or
  any other option: the test comes first in the function.
\<close>

theorem C2_sub_minute_zero_second:
  assumes "num_lt (Math_abs (num_sub now from)) (Fin 60000)"
    and "o_showSecond options = None \<or> o_showSecond options = Some False"
  shows "formatTimeAgo from options now =
           Inr (Rtf_format (locale_of options) (relativeTimeOptions_of options) (Fin 0) ''second'')"
  using assms
  by (auto simp: formatTimeAgo_def Let_def less_than_a_minute_def showSecond_of_def rtf_of_def)

theorem C2_sub_minute_zero_second_witness:
  "num_lt (Math_abs (num_sub (Fin 40000) (Fin 0))) (Fin 60000)
   \<and> o_showSecond (no_options\<lparr>o_max := Some (Max_number (Fin 10))\<rparr>) = None
   \<and> formatTimeAgo (Fin 0) (no_options\<lparr>o_max := Some (Max_number (Fin 10))\<rparr>) (Fin 40000) =
       Inr (Rtf_format ''ar'' Numeric_auto (Fin 0) ''second'')"
  using C2_sub_minute_zero_second
    [of "Fin 40000" "Fin 0" "no_options\<lparr>o_max := Some (Max_number (Fin 10))\<rparr>"]
  by (simp add: no_options_def locale_of_def relativeTimeOptions_of_def)

section \<open>Invalid input and exceptions\<close>




section \<open>The default locale\<close>

text \<open>
  C9. When the call supplies no \<open>locale\<close>, the relative-time formatter is built with the
  tag \<open>'ar'\<close>, and every relative phrase the function returns comes from that formatter.
\<close>

theorem C9_default_locale_ar:
  assumes "o_locale options = None"
  shows "fst (rtf_of options) = ''ar''
         \<and> (\<forall>l ro v n. formatTimeAgo from options now = Inr (Rtf_format l ro v n) \<longrightarrow> l = ''ar'')"
  using assms formatTimeAgo_Rtf [of "from" options now]
  by (simp add: rtf_of_def locale_of_def)

theorem C9_default_locale_ar_witness:
  "o_locale no_options = None
   \<and> formatTimeAgo (Fin 0) no_options (Fin 7200000) =
       Inr (Rtf_format ''ar'' Numeric_auto (Fin (- 2)) ''hour'')
   \<and> fst (rtf_of no_options) = ''ar''"
proof -
  have n: "o_locale no_options = None" by (simp add: no_options_def)
  have "formatTimeAgo (Fin 0) no_options (Fin 7200000) =
       Inr (Rtf_format ''ar'' Numeric_auto (Fin (- 2)) ''hour'')"
    by code_simp
  with n C9_default_locale_ar [OF n, of "Fin 0" "Fin 7200000"] show ?thesis by simp
qed


section \<open>The max threshold\<close>




text \<open>
  C10. When \<open>max\<close> is a string that names no unit of the table, or the unit it finds has
  \<open>max: 0\<close>, the option has no effect: the call returns what it returns without \<open>max\<close>,
  this is never the full date, and every call not taken by the sub-minute return goes
  into the unit loop.
\<close>

theorem C10_unknown_or_zero_max_ignored:
  assumes "o_max options = Some (Max_unit s)"
    and "(\<forall>u\<in>set (units_of options). unit_name u \<noteq> s)
         \<or> (\<exists>u. find_unit s (units_of options) = Some u \<and> unit_max u = Fin 0)"
  shows "formatTimeAgo from options now = formatTimeAgo from (options\<lparr>o_max := None\<rparr>) now
         \<and> (\<forall>f d. formatTimeAgo from options now \<noteq> Inr (Full_date f d))
         \<and> (\<not> less_than_a_minute (Math_abs (num_sub now from)) (showSecond_of options) \<longrightarrow>
              formatTimeAgo from options now =
                scan (rtf_of options) (rounding_of options) (num_sub now from) (units_of options) 0)"
proof -
  have n: "\<not> max_number_exceeded (max_of options) absDiff" for absDiff
    using assms(1) by (simp add: max_number_exceeded_def max_of_def)
  have u: "\<not> max_unit_exceeded (max_of options) (units_of options) absDiff" for absDiff
    using assms by (auto simp: max_unit_exceeded_def max_of_def truthy_def find_unit_None [symmetric])
  have 1: "formatTimeAgo from options now = formatTimeAgo from (options\<lparr>o_max := None\<rparr>) now"
    using n u
    by (simp add: formatTimeAgo_def Let_def max_of_def max_number_exceeded_def max_unit_exceeded_def
        units_of_def showSecond_of_def rounding_of_def rtf_of_def locale_of_def
        relativeTimeOptions_of_def fullDateFormatter_of_def)
  have 2: "formatTimeAgo from options now \<noteq> Inr (Full_date f d)" for f d
    using n u by (simp add: formatTimeAgo_def Let_def scan_not_Full_date)
  have 3: "formatTimeAgo from options now =
      scan (rtf_of options) (rounding_of options) (num_sub now from) (units_of options) 0"
    if "\<not> less_than_a_minute (Math_abs (num_sub now from)) (showSecond_of options)"
    using formatTimeAgo_scan [OF that n u] .
  from 1 2 3 show ?thesis by blast
qed

theorem C10_unknown_or_zero_max_ignored_witness:
  "o_max zero_max_options = Some (Max_unit ''second'')
   \<and> find_unit ''second'' (units_of zero_max_options) = Some (zero_max_units ! 0)
   \<and> unit_max (zero_max_units ! 0) = Fin 0
   \<and> formatTimeAgo (Fin 0) zero_max_options (Fin 180000) =
       formatTimeAgo (Fin 0) (zero_max_options\<lparr>o_max := None\<rparr>) (Fin 180000)
   \<and> formatTimeAgo (Fin 0) zero_max_options (Fin 180000) =
       Inr (Rtf_format ''ar'' Numeric_auto (Fin (- 3)) ''minute'')"
proof -
  have a: "o_max zero_max_options = Some (Max_unit ''second'')"
    by (simp add: zero_max_options_def)
  have b: "find_unit ''second'' (units_of zero_max_options) = Some (zero_max_units ! 0)"
    by (simp add: zero_max_options_def find_unit_def units_of_def zero_max_units_def)
  have c: "unit_max (zero_max_units ! 0) = Fin 0"
    by (simp add: zero_max_units_def)
  have r: "formatTimeAgo (Fin 0) zero_max_options (Fin 180000) =
       Inr (Rtf_format ''ar'' Numeric_auto (Fin (- 3)) ''minute'')"
    by code_simp
  show ?thesis
    using C10_unknown_or_zero_max_ignored [of zero_max_options "''second''" "Fin 0" "Fin 180000"]
      a b c r by auto
qed


section \<open>The unit loop\<close>

text \<open>
  C4. Let a call reach the unit loop, and let the loop reach an index \<open>idx > 0\<close> (it has
  gone past every earlier index) where the magnitude comes out \<open><= 0\<close>. Then the call
  returns the phrase of the previous unit \<open>units[idx - 1]\<close>, with that unit's own
  magnitude, signed by the direction of \<open>from\<close>.
\<close>

theorem C4_zero_magnitude_uses_previous_unit:
  assumes "diff = num_sub now from" and "units = units_of options"
    and "rounding = rounding_of options"
    and "\<not> less_than_a_minute (Math_abs diff) (showSecond_of options)"
    and "\<not> max_number_exceeded (max_of options) (Math_abs diff)"
    and "\<not> max_unit_exceeded (max_of options) units (Math_abs diff)"
    and "0 < idx" and "idx < length units"
    and "\<forall>j<idx. passes_over rounding diff units j"
    and "getValue rounding diff (units ! idx) = Inr val" and "num_le val (Fin 0)"
  shows "\<exists>w. getValue rounding diff (units ! (idx - 1)) = Inr w
           \<and> formatTimeAgo from options now =
               Inr (Rtf_format (locale_of options) (relativeTimeOptions_of options)
                      (if num_gt diff (Fin 0) then num_neg w else w)
                      (unit_name (units ! (idx - 1))))"
proof -
  have "passes_over rounding diff units (idx - 1)"
    using assms(7,9) by simp
  then obtain w where w: "getValue rounding diff (units ! (idx - 1)) = Inr w"
    by (auto simp: passes_over_def split: sum.splits)
  have "formatTimeAgo from options now =
      scan (rtf_of options) rounding diff units 0"
    using formatTimeAgo_scan [of now "from" options] assms(1-6) by simp
  also have "\<dots> = scan (rtf_of options) rounding diff units idx"
    using scan_skip [of 0 idx units rounding diff "rtf_of options"] assms(8,9) by simp
  also have "\<dots> = format (rtf_of options) rounding diff (units ! (idx - 1))"
    using scan_fallback [OF assms(8,7,10,11)] .
  finally show ?thesis
    using w by (simp add: format_value rtf_of_def)
qed

theorem C4_zero_magnitude_uses_previous_unit_witness:
  "\<not> less_than_a_minute (Math_abs (num_sub (Fin 2760000) (Fin 0))) (showSecond_of floor_options)
   \<and> passes_over Floor (Fin 2760000) DEFAULT_UNITS 0
   \<and> passes_over Floor (Fin 2760000) DEFAULT_UNITS 1
   \<and> getValue Floor (Fin 2760000) (DEFAULT_UNITS ! 2) = Inr (Fin 0)
   \<and> getValue Floor (Fin 2760000) (DEFAULT_UNITS ! 1) = Inr (Fin 46)
   \<and> unit_name (DEFAULT_UNITS ! 1) = ''minute''
   \<and> formatTimeAgo (Fin 0) floor_options (Fin 2760000) =
       Inr (Rtf_format ''ar'' Numeric_auto (Fin (- 46)) ''minute'')"
proof -
  have d: "Fin 2760000 = num_sub (Fin 2760000) (Fin 0)" by simp
  have u: "DEFAULT_UNITS = units_of floor_options"
    by (simp add: units_of_def floor_options_def no_options_def)
  have r: "Floor = rounding_of floor_options"
    by (simp add: rounding_of_def floor_options_def no_options_def)
  have a: "\<not> less_than_a_minute (Math_abs (Fin 2760000)) (showSecond_of floor_options)"
    by (simp add: less_than_a_minute_def)
  have b: "\<not> max_number_exceeded (max_of floor_options) (Math_abs (Fin 2760000))"
    by (simp add: max_number_exceeded_def max_of_def floor_options_def no_options_def)
  have c: "\<not> max_unit_exceeded (max_of floor_options) DEFAULT_UNITS (Math_abs (Fin 2760000))"
    by (simp add: max_unit_exceeded_def max_of_def floor_options_def no_options_def)
  have p0: "passes_over Floor (Fin 2760000) DEFAULT_UNITS 0"
    by code_simp
  have p1: "passes_over Floor (Fin 2760000) DEFAULT_UNITS 1"
    by code_simp
  have p: "\<forall>j<2. passes_over Floor (Fin 2760000) DEFAULT_UNITS j"
    using p0 p1 by (auto simp: less_Suc_eq numeral_2_eq_2)
  have g2: "getValue Floor (Fin 2760000) (DEFAULT_UNITS ! 2) = Inr (Fin 0)"
    by code_simp
  have g1: "getValue Floor (Fin 2760000) (DEFAULT_UNITS ! 1) = Inr (Fin 46)"
    by code_simp
  have n1: "unit_name (DEFAULT_UNITS ! 1) = ''minute''"
    by (simp add: DEFAULT_UNITS_def)
  have z: "num_le (Fin 0) (Fin 0)" by (simp add: num_le_def)
  have l: "(2::nat) < length DEFAULT_UNITS" by (simp add: DEFAULT_UNITS_def)
  have loc: "locale_of floor_options = ''ar''"
    "relativeTimeOptions_of floor_options = Numeric_auto"
    by (simp_all add: locale_of_def relativeTimeOptions_of_def floor_options_def no_options_def)
  have "formatTimeAgo (Fin 0) floor_options (Fin 2760000) =
       Inr (Rtf_format ''ar'' Numeric_auto (Fin (- 46)) ''minute'')"
    using C4_zero_magnitude_uses_previous_unit [OF d u r a b c _ l p g2 z] g1 n1 loc
    by (simp add: num_gt_def)
  with a p0 p1 g2 g1 n1 show ?thesis by simp
qed

text \<open>
  C1, as amended. Let a call reach the unit loop, let \<open>units[idx]\<close> be the first unit with
  \<open>|now - from| < unit.max\<close>, and let the magnitude function raise nothing and give, at
  every index from 1 to \<open>idx\<close>, a magnitude that is not \<open><= 0\<close>. Then the call returns
  the phrase of \<open>units[idx]\<close>, whose magnitude is the configured rounding of
  \<open>|now - from| / unit.value\<close>.
\<close>

theorem C1_first_fitting_unit:
  assumes "diff = num_sub now from" and "units = units_of options"
    and "rounding = rounding_of options"
    and "\<not> less_than_a_minute (Math_abs diff) (showSecond_of options)"
    and "\<not> max_number_exceeded (max_of options) (Math_abs diff)"
    and "\<not> max_unit_exceeded (max_of options) units (Math_abs diff)"
    and "idx < length units"
    and "num_lt (Math_abs diff) (unit_max (units ! idx))"
    and "\<forall>j<idx. \<not> num_lt (Math_abs diff) (unit_max (units ! j))"
    and "\<forall>j\<le>idx. \<exists>v. getValue rounding diff (units ! j) = Inr v \<and> \<not> (0 < j \<and> num_le v (Fin 0))"
  shows "\<exists>val. roundFn rounding (num_div (Math_abs diff) (unit_value (units ! idx))) = Inr val
           \<and> formatTimeAgo from options now =
               Inr (Rtf_format (locale_of options) (relativeTimeOptions_of options)
                      (if num_gt diff (Fin 0) then num_neg val else val)
                      (unit_name (units ! idx)))"
proof -
  obtain val where v: "getValue rounding diff (units ! idx) = Inr val"
    and nz: "\<not> (0 < idx \<and> num_le val (Fin 0))"
    using assms(10) by auto
  have p: "\<forall>j. 0 \<le> j \<and> j < idx \<longrightarrow> passes_over rounding diff units j"
  proof (intro allI impI)
    fix j assume j: "0 \<le> j \<and> j < idx"
    then obtain w where "getValue rounding diff (units ! j) = Inr w"
      "\<not> (0 < j \<and> num_le w (Fin 0))"
      using assms(10) by (meson less_imp_le)
    then show "passes_over rounding diff units j"
      using assms(9) j by (auto simp: passes_over_def)
  qed
  have "formatTimeAgo from options now =
      scan (rtf_of options) rounding diff units 0"
    using formatTimeAgo_scan [of now "from" options] assms(1-6) by simp
  also have "\<dots> = scan (rtf_of options) rounding diff units idx"
    using scan_skip [of 0 idx units rounding diff "rtf_of options"] assms(7) p by simp
  also have "\<dots> = format (rtf_of options) rounding diff (units ! idx)"
    using scan_fit [OF assms(7) v _ assms(8)] nz by blast
  finally show ?thesis
    using v by (auto simp: format_value rtf_of_def getValue_def)
qed

theorem C1_first_fitting_unit_witness:
  "\<not> less_than_a_minute (Math_abs (num_sub (Fin 7200000) (Fin 0))) (showSecond_of no_options)
   \<and> num_lt (Math_abs (Fin 7200000)) (unit_max (DEFAULT_UNITS ! 2))
   \<and> \<not> num_lt (Math_abs (Fin 7200000)) (unit_max (DEFAULT_UNITS ! 1))
   \<and> \<not> num_lt (Math_abs (Fin 7200000)) (unit_max (DEFAULT_UNITS ! 0))
   \<and> roundFn Round (num_div (Math_abs (Fin 7200000)) (unit_value (DEFAULT_UNITS ! 2))) = Inr (Fin 2)
   \<and> formatTimeAgo (Fin 0) no_options (Fin 7200000) =
       Inr (Rtf_format ''ar'' Numeric_auto (Fin (- 2)) ''hour'')"
proof -
  have d: "Fin 7200000 = num_sub (Fin 7200000) (Fin 0)" by simp
  have u: "DEFAULT_UNITS = units_of no_options"
    by (simp add: units_of_def no_options_def)
  have r: "Round = rounding_of no_options"
    by (simp add: rounding_of_def no_options_def)
  have a: "\<not> less_than_a_minute (Math_abs (Fin 7200000)) (showSecond_of no_options)"
    by (simp add: less_than_a_minute_def)
  have b: "\<not> max_number_exceeded (max_of no_options) (Math_abs (Fin 7200000))"
    by (simp add: max_number_exceeded_def max_of_def no_options_def)
  have c: "\<not> max_unit_exceeded (max_of no_options) DEFAULT_UNITS (Math_abs (Fin 7200000))"
    by (simp add: max_unit_exceeded_def max_of_def no_options_def)
  have l: "(2::nat) < length DEFAULT_UNITS" by (simp add: DEFAULT_UNITS_def)
  have f2: "num_lt (Math_abs (Fin 7200000)) (unit_max (DEFAULT_UNITS ! 2))"
    by (simp add: DEFAULT_UNITS_def)
  have f1: "\<not> num_lt (Math_abs (Fin 7200000)) (unit_max (DEFAULT_UNITS ! 1))"
    by (simp add: DEFAULT_UNITS_def)
  have f0: "\<not> num_lt (Math_abs (Fin 7200000)) (unit_max (DEFAULT_UNITS ! 0))"
    by (simp add: DEFAULT_UNITS_def)
  have nf: "\<forall>j<2. \<not> num_lt (Math_abs (Fin 7200000)) (unit_max (DEFAULT_UNITS ! j))"
    using f0 f1 by (auto simp: less_Suc_eq numeral_2_eq_2)
  have g0: "getValue Round (Fin 7200000) (DEFAULT_UNITS ! 0) = Inr (Fin 7200)"
    by code_simp
  have g1: "getValue Round (Fin 7200000) (DEFAULT_UNITS ! 1) = Inr (Fin 120)"
    by code_simp
  have g2: "getValue Round (Fin 7200000) (DEFAULT_UNITS ! 2) = Inr (Fin 2)"
    by code_simp
  have g: "\<forall>j\<le>2. \<exists>v. getValue Round (Fin 7200000) (DEFAULT_UNITS ! j) = Inr v
      \<and> \<not> (0 < j \<and> num_le v (Fin 0))"
    using g0 g1 g2 by (auto simp: le_Suc_eq numeral_2_eq_2 num_le_def)
  have v: "roundFn Round (num_div (Math_abs (Fin 7200000)) (unit_value (DEFAULT_UNITS ! 2))) =
      Inr (Fin 2)"
    by code_simp
  have loc: "locale_of no_options = ''ar''"
    "relativeTimeOptions_of no_options = Numeric_auto"
    "unit_name (DEFAULT_UNITS ! 2) = ''hour''"
    by (simp_all add: locale_of_def relativeTimeOptions_of_def no_options_def DEFAULT_UNITS_def)
  have "formatTimeAgo (Fin 0) no_options (Fin 7200000) =
       Inr (Rtf_format ''ar'' Numeric_auto (Fin (- 2)) ''hour'')"
    using C1_first_fitting_unit [OF d u r a b c l f2 nf g] v loc
    by (auto simp: num_gt_def)
  with a f2 f1 f0 v show ?thesis by simp
qed

text \<open>
  The claim as stated fails: with \<open>rounding: 'floor'\<close> and \<open>now - from\<close> of 46 minutes
  the first unit whose bucket fits is the hour, but its magnitude is \<open>floor(0.766) = 0\<close>,
  and the loop returns the phrase of the previous unit, 46 minutes, instead of the hour's.
\<close>

theorem C1_counterexample:
  "\<not> less_than_a_minute (Math_abs (num_sub (Fin 2760000) (Fin 0))) (showSecond_of floor_options)
   \<and> max_of floor_options = None
   \<and> \<not> num_lt (Math_abs (num_sub (Fin 2760000) (Fin 0))) (unit_max (units_of floor_options ! 0))
   \<and> \<not> num_lt (Math_abs (num_sub (Fin 2760000) (Fin 0))) (unit_max (units_of floor_options ! 1))
   \<and> num_lt (Math_abs (num_sub (Fin 2760000) (Fin 0))) (unit_max (units_of floor_options ! 2))
   \<and> unit_name (units_of floor_options ! 2) = ''hour''
   \<and> formatTimeAgo (Fin 0) floor_options (Fin 2760000) =
       Inr (Rtf_format ''ar'' Numeric_auto (Fin (- 46)) ''minute'')
   \<and> formatTimeAgo (Fin 0) floor_options (Fin 2760000) \<noteq>
       format (rtf_of floor_options) (rounding_of floor_options)
         (num_sub (Fin 2760000) (Fin 0)) (units_of floor_options ! 2)"
proof -
  have r: "formatTimeAgo (Fin 0) floor_options (Fin 2760000) =
       Inr (Rtf_format ''ar'' Numeric_auto (Fin (- 46)) ''minute'')"
    by code_simp
  have u: "units_of floor_options = DEFAULT_UNITS"
    by (simp add: units_of_def floor_options_def no_options_def)
  have f: "format (rtf_of floor_options) (rounding_of floor_options)
         (num_sub (Fin 2760000) (Fin 0)) (DEFAULT_UNITS ! 2) =
       (Inr (Rtf_format ''ar'' Numeric_auto (Fin 0) ''hour'') :: error + (unit, unit) outcome)"
    by code_simp
  show ?thesis
    unfolding r u f
    by (simp add: less_than_a_minute_def max_of_def floor_options_def no_options_def
        DEFAULT_UNITS_def)
qed




section \<open>The rounding option\<close>




section \<open>The default unit table\<close>

text \<open>
  C8. In \<open>DEFAULT_UNITS\<close> the \<open>max\<close> fields increase strictly, the last one is
  \<open>Infinity\<close>, every finite difference is below the \<open>max\<close> of some unit, and the unit loop
  over the table never falls through to the empty string for a finite difference.
\<close>

theorem C8_default_units_well_formed:
  "sorted_wrt num_lt (map unit_max DEFAULT_UNITS)
   \<and> unit_max (last DEFAULT_UNITS) = PInf
   \<and> (\<forall>a. \<exists>u\<in>set DEFAULT_UNITS. num_lt (Math_abs (Fin a)) (unit_max u))
   \<and> (\<forall>a rtf rounding.
        scan rtf rounding (Fin a) DEFAULT_UNITS 0 \<noteq> (Inr Empty_string :: error + ('f, 'r) outcome))"
proof -
  have 1: "sorted_wrt num_lt (map unit_max DEFAULT_UNITS)"
    by (simp add: DEFAULT_UNITS_def)
  have 2: "unit_max (last DEFAULT_UNITS) = PInf"
    by (simp add: DEFAULT_UNITS_def)
  have 3: "\<exists>u\<in>set DEFAULT_UNITS. num_lt (Math_abs (Fin a)) (unit_max u)" for a
    by (simp add: DEFAULT_UNITS_def)
  have 4: "scan rtf rounding (Fin a) DEFAULT_UNITS 0 \<noteq> (Inr Empty_string :: error + ('f, 'r) outcome)"
    for a and rtf :: "'r rtf" and rounding
    by (rule scan_finds [of 6]) (simp_all add: DEFAULT_UNITS_def)
  from 1 2 3 4 show ?thesis by blast
qed


theorem C8_default_units_well_formed_witness:
  "(\<exists>u\<in>set DEFAULT_UNITS. num_lt (Math_abs (Fin (- 90000000000))) (unit_max u))
   \<and> scan (''ar'', Numeric_auto) Round (Fin (- 90000000000)) DEFAULT_UNITS 0 \<noteq>
       (Inr Empty_string :: error + (unit, unit) outcome)
   \<and> scan (''ar'', Numeric_auto) Round (Fin (- 90000000000)) DEFAULT_UNITS 0 =
       (Inr (Rtf_format ''ar'' Numeric_auto (Fin 3) ''year'') :: error + (unit, unit) outcome)"
proof -
  have "scan (''ar'', Numeric_auto) Round (Fin (- 90000000000)) DEFAULT_UNITS 0 =
       (Inr (Rtf_format ''ar'' Numeric_auto (Fin 3) ''year'') :: error + (unit, unit) outcome)"
    by code_simp
  then show ?thesis
    using C8_default_units_well_formed [where ?'f = unit and ?'r = unit] by blast
qed


end
